theory Spec2Isabelle
  imports Main
begin

section \<open>Word Race: the client (src/client/src/App.jsx)\<close>

text \<open>
  The repository's only program file is the React client. Its component state becomes a
  record, every socket handler and DOM handler a function on that record that also returns
  the messages it emits, and the two effects (socket set-up, typing notification) are
  written out where React runs them.

  JavaScript strings are modelled as \<open>string\<close>. The model is exact on ASCII text, which is
  all the protocol's words contain (the input handler removes everything outside
  \<open>[a-zA-Z]\<close> before anything else looks at the text). Text outside ASCII occurs only in
  values that are stored and compared, never inspected (status lines, room ids, rejection
  reasons); there a character stands for one byte of its UTF-8 form.
\<close>

subsection \<open>Constants\<close>

definition WORD_LEN :: nat where
  "WORD_LEN = 5"

definition MAX_GUESSES :: nat where
  "MAX_GUESSES = 6"

subsection \<open>String primitives of the host language\<close>

definition code :: "char \<Rightarrow> nat" where
  "code c = of_char c"

definition is_upper :: "char \<Rightarrow> bool" where
  "is_upper c = (65 \<le> code c \<and> code c \<le> 90)"

definition is_lower :: "char \<Rightarrow> bool" where
  "is_lower c = (97 \<le> code c \<and> code c \<le> 122)"

text \<open>The character class \<open>[a-zA-Z]\<close> of the input handler's regular expression.\<close>

definition is_letter :: "char \<Rightarrow> bool" where
  "is_letter c = (is_lower c \<or> is_upper c)"

definition lower_char :: "char \<Rightarrow> char" where
  "lower_char c = (if is_upper c then char_of (code c + 32) else c)"

definition upper_char :: "char \<Rightarrow> char" where
  "upper_char c = (if is_lower c then char_of (code c - 32) else c)"

definition toLowerCase :: "string \<Rightarrow> string" where
  "toLowerCase s = map lower_char s"

definition toUpperCase :: "string \<Rightarrow> string" where
  "toUpperCase s = map upper_char s"

text \<open>\<open>s.padEnd(n, c)\<close> for a one-character filler.\<close>

definition padEnd :: "string \<Rightarrow> nat \<Rightarrow> char \<Rightarrow> string" where
  "padEnd s n c = s @ replicate (n - length s) c"

text \<open>White space that \<open>trim\<close> removes, as far as it is ASCII.\<close>

definition is_space :: "char \<Rightarrow> bool" where
  "is_space c = (code c = 32 \<or> (9 \<le> code c \<and> code c \<le> 13))"

definition trim :: "string \<Rightarrow> string" where
  "trim s = rev (dropWhile is_space (rev (dropWhile is_space s)))"

subsection \<open>Session identifiers\<close>

text \<open>
  A session id is the token the transport assigns to a connection: a non-empty string,
  kept as its first character and the rest. Being non-empty, a session id that is present
  is truthy in the host language.
\<close>

datatype sid = Sid char string

fun sid_str :: "sid \<Rightarrow> string" where
  "sid_str (Sid c cs) = c # cs"

text \<open>Truthiness of an optional session id: absent (or null) and the empty string are falsy.\<close>

definition truthy_sid :: "sid option \<Rightarrow> bool" where
  "truthy_sid w = (case w of None \<Rightarrow> False | Some i \<Rightarrow> sid_str i \<noteq> [])"

subsection \<open>Wire messages\<close>

text \<open>What the client emits on its socket.\<close>

datatype client_msg =
    RoomJoin string
  | Guess string
  | Typing nat
  | ResetRoom
  | Disconnect

text \<open>Payload of \<open>guess:result\<close>: \<open>{sid, row, guess, feedback, winnerSid?}\<close>.\<close>

record guess_result =
  p_sid :: sid
  p_row :: int
  p_guess :: string
  p_feedback :: "string list"
  p_winnerSid :: "sid option"

text \<open>Payload of \<open>room:finished\<close>: \<open>{solution, winnerSid?}\<close>.\<close>

record finished =
  f_solution :: string
  f_winnerSid :: "sid option"

subsection \<open>Component state\<close>

text \<open>One row of a board: \<open>{ guess, fb }\<close>.\<close>

record entry =
  guess :: string
  fb :: "string list"

text \<open>The socket object; \<open>sock_id\<close> is \<open>s.id\<close>, undefined until the transport connects.\<close>

record sock =
  sock_id :: "sid option"

record client =
  roomId :: string
  socket :: "sock option"
  isPlayer :: bool
  isPlayerRef :: bool
  board :: "entry list"
  otherBoard :: "entry list"
  input :: string
  otherTyping :: nat
  status :: string
  opponentJoined :: bool
  spectators :: nat

text \<open>\<open>Array.from({ length: MAX_GUESSES }, () => ({ guess: '', fb: [] }))\<close>\<close>

definition empty_board :: "entry list" where
  "empty_board = map (\<lambda>_. \<lparr>guess = [], fb = []\<rparr>) [0..<MAX_GUESSES]"

text \<open>
  The parsed query string is a list of name/value pairs in document order;
  \<open>URLSearchParams.get\<close> returns the first value under the name, or null.
\<close>

definition search_get :: "(string \<times> string) list \<Rightarrow> string \<Rightarrow> string option" where
  "search_get params name = map_of params name"

text \<open>\<open>x || d\<close> on an optional string: null and the empty string are falsy.\<close>

definition or_default :: "string option \<Rightarrow> string \<Rightarrow> string" where
  "or_default x d = (case x of None \<Rightarrow> d | Some v \<Rightarrow> if v = [] then d else v)"

text \<open>The state of the first render, from the page's query string.\<close>

definition init :: "(string \<times> string) list \<Rightarrow> client" where
  "init params =
     \<lparr>roomId = or_default (search_get params ''room'') ''lobby'',
      socket = None,
      isPlayer = False,
      isPlayerRef = False,
      board = empty_board,
      otherBoard = empty_board,
      input = [],
      otherTyping = 0,
      status = [],
      opponentJoined = False,
      spectators = 0\<rparr>"

subsection \<open>Socket handlers\<close>

text \<open>
  Each handler is the body of one \<open>s.on(...)\<close> callback. The socket \<open>s\<close> of the closure is
  a parameter where the body reads \<open>s.id\<close>.
\<close>

definition status_opponent_joined :: string where
  "status_opponent_joined = ''Opponent joined! '' @ [CHR 0xF0, CHR 0x9F, CHR 0x9F, CHR 0xA2]"

definition status_you_win :: string where
  "status_you_win = ''You win! '' @ [CHR 0xF0, CHR 0x9F, CHR 0x8E, CHR 0x89]"

definition status_they_win :: string where
  "status_they_win = ''They win! '' @ [CHR 0xF0, CHR 0x9F, CHR 0x98, CHR 0xA4]"

definition on_room_hello :: "bool \<Rightarrow> client \<Rightarrow> client" where
  "on_room_hello youArePlayer st = st\<lparr>isPlayer := youArePlayer, isPlayerRef := youArePlayer\<rparr>"

definition on_room_roster :: "nat \<Rightarrow> nat option \<Rightarrow> client \<Rightarrow> client" where
  "on_room_roster numPlayers numSpectators st =
     st\<lparr>spectators := (case numSpectators of None \<Rightarrow> 0 | Some n \<Rightarrow> n),
        opponentJoined := (isPlayerRef st \<and> 2 \<le> numPlayers)\<rparr>"

definition on_opponent_joined :: "client \<Rightarrow> client" where
  "on_opponent_joined st = st\<lparr>opponentJoined := True, status := status_opponent_joined\<rparr>"

definition on_typing_update :: "nat \<Rightarrow> client \<Rightarrow> client" where
  "on_typing_update len st = st\<lparr>otherTyping := len\<rparr>"

text \<open>\<open>prev.map((r, i) => (i === row ? entry : r))\<close>\<close>

definition replace_row :: "entry list \<Rightarrow> int \<Rightarrow> entry \<Rightarrow> entry list" where
  "replace_row prev row e = map (\<lambda>(i, r). if int i = row then e else r) (enumerate 0 prev)"

definition on_guess_result :: "sock \<Rightarrow> guess_result \<Rightarrow> client \<Rightarrow> client" where
  "on_guess_result s payload st =
     (let row = p_row payload;
          e = \<lparr>guess = p_guess payload, fb = p_feedback payload\<rparr>;
          st1 = (if Some (p_sid payload) = sock_id s
                 then st\<lparr>board := replace_row (board st) row e\<rparr>
                 else st\<lparr>otherBoard := replace_row (otherBoard st) row e\<rparr>)
      in if truthy_sid (p_winnerSid payload)
         then st1\<lparr>status := (if p_winnerSid payload = sock_id s
                               then status_you_win else status_they_win)\<rparr>
         else st1)"

definition on_guess_rejected :: "string \<Rightarrow> client \<Rightarrow> client" where
  "on_guess_rejected reason st = st\<lparr>status := reason\<rparr>"

definition on_room_finished :: "finished \<Rightarrow> client \<Rightarrow> client" where
  "on_room_finished payload st =
     (if \<not> truthy_sid (f_winnerSid payload)
      then st\<lparr>status := ''Draw. Solution: '' @ toUpperCase (f_solution payload)\<rparr>
      else st)"

definition on_room_reset :: "client \<Rightarrow> client" where
  "on_room_reset st =
     st\<lparr>board := empty_board, otherBoard := empty_board, status := [], input := []\<rparr>"

text \<open>The callback of the two \<open>setTimeout\<close> calls: \<open>setStatus('')\<close>.\<close>

definition on_status_timeout :: "client \<Rightarrow> client" where
  "on_status_timeout st = st\<lparr>status := []\<rparr>"

subsection \<open>Effects and DOM handlers\<close>

text \<open>The typing effect: \<open>if (!socket) return; socket.emit('typing', { length: input.length })\<close>.\<close>

definition typing_effect :: "client \<Rightarrow> client_msg list" where
  "typing_effect st = (case socket st of None \<Rightarrow> [] | Some s \<Rightarrow> [Typing (length (input st))])"

text \<open>
  The set-up effect of the first render creates the socket and stores it; the render that
  follows runs the typing effect with the socket in place.
\<close>

definition mount :: "client \<Rightarrow> client \<times> client_msg list" where
  "mount st = (let st' = st\<lparr>socket := Some \<lparr>sock_id = None\<rparr>\<rparr> in (st', typing_effect st'))"

definition submitGuess :: "client \<Rightarrow> client \<times> client_msg list" where
  "submitGuess st =
     (if socket st = None \<or> \<not> isPlayer st \<or> length (input st) \<noteq> WORD_LEN
      then (st, [])
      else (st\<lparr>input := []\<rparr>, [Guess (input st)]))"

definition handleReset :: "client \<Rightarrow> client_msg list" where
  "handleReset st = (case socket st of None \<Rightarrow> [] | Some s \<Rightarrow> [ResetRoom])"

text \<open>
  The guess field's \<open>onChange\<close>:
  \<open>e.target.value.replace(/[^a-zA-Z]/g, '').slice(0, WORD_LEN).toLowerCase()\<close>.
\<close>

definition sanitize :: "string \<Rightarrow> string" where
  "sanitize v = toLowerCase (take WORD_LEN (filter is_letter v))"

definition onChange :: "string \<Rightarrow> client \<Rightarrow> client" where
  "onChange v st = st\<lparr>input := sanitize v\<rparr>"

text \<open>
  The room field's \<open>onChange\<close>. A new room id re-runs the set-up effect: the old socket is
  disconnected and a fresh one takes its place.
\<close>

definition changeRoomId :: "string \<Rightarrow> client \<Rightarrow> client \<times> client_msg list" where
  "changeRoomId v st =
     (if v = roomId st then (st, [])
      else (st\<lparr>roomId := v, socket := Some \<lparr>sock_id = None\<rparr>\<rparr>,
            (case socket st of None \<Rightarrow> [] | Some s \<Rightarrow> [Disconnect])))"

subsection \<open>The client as a transition system\<close>

datatype event =
    Connect sid
  | RoomHello bool
  | RoomRoster nat "nat option"
  | RoomOpponentJoined
  | TypingUpdate nat
  | GuessResult guess_result
  | GuessRejected string
  | RoomFinished finished
  | RoomReset
  | StatusTimeout
  | ChangeRoomId string
  | ChangeInput string
  | SubmitGuess
  | ClickReset

text \<open>
  Socket events reach a handler only on the socket the set-up effect created; before that
  there is no listener. \<open>Connect i\<close> is the transport's connect event, which fixes \<open>s.id\<close>
  before the listener emits \<open>room_join\<close>. \<open>StatusTimeout\<close> is a timer of \<open>setTimeout\<close> firing;
  it may come at any time. Left out: the Share Link button, which reloads the page (a new
  run from \<open>init\<close>), and the focus that the reset handler gives to the input field.
\<close>

fun on_socket :: "sock \<Rightarrow> event \<Rightarrow> client \<Rightarrow> client \<times> client_msg list" where
  "on_socket s (Connect i) st = (st\<lparr>socket := Some (s\<lparr>sock_id := Some i\<rparr>)\<rparr>, [RoomJoin (roomId st)])"
| "on_socket s (RoomHello y) st = (on_room_hello y st, [])"
| "on_socket s (RoomRoster np ns) st = (on_room_roster np ns st, [])"
| "on_socket s RoomOpponentJoined st = (on_opponent_joined st, [])"
| "on_socket s (TypingUpdate len) st = (on_typing_update len st, [])"
| "on_socket s (GuessResult p) st = (on_guess_result s p st, [])"
| "on_socket s (GuessRejected r) st = (on_guess_rejected r st, [])"
| "on_socket s (RoomFinished p) st = (on_room_finished p st, [])"
| "on_socket s RoomReset st = (on_room_reset st, [])"
| "on_socket s ev st = (st, [])"

fun is_socket_event :: "event \<Rightarrow> bool" where
  "is_socket_event StatusTimeout = False"
| "is_socket_event (ChangeRoomId v) = False"
| "is_socket_event (ChangeInput v) = False"
| "is_socket_event SubmitGuess = False"
| "is_socket_event ClickReset = False"
| "is_socket_event ev = True"

definition handle :: "client \<Rightarrow> event \<Rightarrow> client \<times> client_msg list" where
  "handle st ev =
     (if is_socket_event ev
      then (case socket st of None \<Rightarrow> (st, []) | Some s \<Rightarrow> on_socket s ev st)
      else (case ev of
              StatusTimeout \<Rightarrow> (on_status_timeout st, [])
            | ChangeRoomId v \<Rightarrow> changeRoomId v st
            | ChangeInput v \<Rightarrow> (onChange v st, [])
            | SubmitGuess \<Rightarrow> submitGuess st
            | ClickReset \<Rightarrow> (st, handleReset st)
            | _ \<Rightarrow> (st, [])))"

text \<open>
  After the render an event causes, the typing effect runs again when one of its
  dependencies \<open>[input, socket]\<close> has changed: the input by value, the socket when the
  set-up effect has replaced it.
\<close>

definition socket_replaced :: "client \<Rightarrow> event \<Rightarrow> bool" where
  "socket_replaced st ev = (case ev of ChangeRoomId v \<Rightarrow> v \<noteq> roomId st | _ \<Rightarrow> False)"

definition step :: "client \<Rightarrow> event \<Rightarrow> client \<times> client_msg list" where
  "step st ev =
     (case handle st ev of
        (st', outs) \<Rightarrow>
          (st', outs @ (if input st' \<noteq> input st \<or> socket_replaced st ev
                        then typing_effect st' else [])))"

text \<open>The states a mounted client can be in, whatever the page's query string was.\<close>

inductive reachable :: "client \<Rightarrow> bool" where
  mounted: "reachable (fst (mount (init params)))"
| stepped: "reachable st \<Longrightarrow> reachable (fst (step st ev))"

subsection \<open>Rendering\<close>

record cell =
  cls :: string
  letter :: string

text \<open>The argument \<open>state\<close> is \<open>None\<close> for null and for undefined.\<close>

definition Cell :: "string option \<Rightarrow> string \<Rightarrow> cell" where
  "Cell state l =
     \<lparr>cls = (if state = Some ''g'' then ''bg-green-600''
             else if state = Some ''y'' then ''bg-yellow-600''
             else if state = Some ''b'' then ''bg-slate-700''
             else ''bg-slate-800''),
      letter = l\<rparr>"

text \<open>
  \<open>Row\<close> pads the letters to \<open>WORD_LEN\<close>, copies the feedback and pushes null until it has
  \<open>WORD_LEN\<close> elements; \<open>fb[i]\<close> beyond that is undefined.
\<close>

definition Row :: "string \<Rightarrow> string list \<Rightarrow> cell list" where
  "Row g feedback =
     (let letters = padEnd g WORD_LEN (CHR '' '');
          fbs = map Some feedback @ replicate (WORD_LEN - length feedback) None
      in map (\<lambda>(i, ch). Cell (if i < length fbs then fbs ! i else None) (trim [ch]))
             (enumerate 0 letters))"

text \<open>The own board shows letters and colours.\<close>

definition render_board :: "client \<Rightarrow> cell list list" where
  "render_board st = map (\<lambda>r. Row (guess r) (fb r)) (board st)"

text \<open>The opponent section: \<open><Row key={i} guess={" "} feedback={r.fb} />\<close>.\<close>

definition render_otherBoard :: "client \<Rightarrow> cell list list" where
  "render_otherBoard st = map (\<lambda>r. Row '' '' (fb r)) (otherBoard st)"

text \<open>Everything of the page that depends on the state.\<close>

record view =
  v_roomId :: string
  v_opponentJoined :: bool
  v_spectators :: nat
  v_board :: "cell list list"
  v_input :: string
  v_guessDisabled :: bool
  v_status :: "string option"
  v_otherBoard :: "cell list list"
  v_typingBoxes :: "bool list option"

definition render_App :: "client \<Rightarrow> view" where
  "render_App st =
     \<lparr>v_roomId = roomId st,
      v_opponentJoined = opponentJoined st,
      v_spectators = spectators st,
      v_board = render_board st,
      v_input = toUpperCase (input st),
      v_guessDisabled = (length (input st) \<noteq> WORD_LEN),
      v_status = (if status st \<noteq> [] then Some (status st) else None),
      v_otherBoard = render_otherBoard st,
      v_typingBoxes = (if 0 < otherTyping st
                       then Some (map (\<lambda>i. i < otherTyping st) [0..<WORD_LEN])
                       else None)\<rparr>"

subsection \<open>Observations used in the statements\<close>

fun is_typing :: "client_msg \<Rightarrow> bool" where
  "is_typing (Typing n) = True"
| "is_typing m = False"

fun typing_lengths :: "client_msg list \<Rightarrow> nat list" where
  "typing_lengths [] = []"
| "typing_lengths (Typing n # ms) = n # typing_lengths ms"
| "typing_lengths (m # ms) = typing_lengths ms"

text \<open>The messages a client emits over a run of events.\<close>

fun run :: "client \<Rightarrow> event list \<Rightarrow> client \<times> client_msg list" where
  "run st [] = (st, [])"
| "run st (ev # evs) =
     (case step st ev of (st1, out1) \<Rightarrow>
        (case run st1 evs of (st2, out2) \<Rightarrow> (st2, out1 @ out2)))"

text \<open>What the input handler and the handlers that clear the field keep true of \<open>input\<close>.\<close>

definition input_ok :: "client \<Rightarrow> bool" where
  "input_ok st = (length (input st) \<le> WORD_LEN \<and> list_all is_lower (input st))"

section \<open>The server side, from the specification\<close>

text \<open>
  The server (feedback engine, room state, session coordinator) is not among the
  repository's files; the definitions of this section follow the wording of the
  specification and are marked as such.
\<close>

subsection \<open>Feedback engine\<close>

datatype mark = GREEN | YELLOW | GRAY

text \<open>
  Modelled from the spec: pass 1 of the feedback engine (section 4.1), whose code is in the
  absent server. For each index, an exact match is marked green and consumes one occurrence
  of the letter from the remaining-count table. The result is the green flag of every
  guess position and the table after the pass. The specification requires both words to
  have the same length; a guess position past the end of the target is no match here.
\<close>

fun pass1 :: "string \<Rightarrow> string \<Rightarrow> (char \<Rightarrow> nat) \<Rightarrow> bool list \<times> (char \<Rightarrow> nat)" where
  "pass1 (g # gs) (t # ts) remaining =
     (if g = t
      then (case pass1 gs ts (remaining(g := remaining g - 1)) of
              (green, r) \<Rightarrow> (True # green, r))
      else (case pass1 gs ts remaining of (green, r) \<Rightarrow> (False # green, r)))"
| "pass1 gs ts remaining = (map (\<lambda>g. False) gs, remaining)"

text \<open>
  Modelled from the spec: pass 2 of the feedback engine (section 4.1), whose code is in the
  absent server. For each index not already green, the letter is marked yellow and its
  count decremented when the remaining count is positive, and gray otherwise.
\<close>

fun pass2 :: "string \<Rightarrow> bool list \<Rightarrow> (char \<Rightarrow> nat) \<Rightarrow> mark list" where
  "pass2 (g # gs) (b # bs) remaining =
     (if b then GREEN # pass2 gs bs remaining
      else if 0 < remaining g
      then YELLOW # pass2 gs bs (remaining(g := remaining g - 1))
      else GRAY # pass2 gs bs remaining)"
| "pass2 gs bs remaining = []"

text \<open>
  Modelled from the spec: \<open>feedback(guess, target)\<close> of the feedback engine (section 4.1),
  whose code is in the absent server. The remaining-count table starts as the letter
  multiset of the target.
\<close>

definition feedback :: "string \<Rightarrow> string \<Rightarrow> mark list" where
  "feedback g target =
     (case pass1 g target (count_list target) of
        (green, remaining) \<Rightarrow> pass2 g green remaining)"

text \<open>The number of green or yellow marks that \<open>marks\<close> gives to occurrences of \<open>l\<close> in \<open>g\<close>.\<close>

definition credited :: "char \<Rightarrow> string \<Rightarrow> mark list \<Rightarrow> nat" where
  "credited l g marks = length (filter (\<lambda>(c, m). c = l \<and> m \<noteq> GRAY) (zip g marks))"

text \<open>The number of positions where guess and target both hold \<open>l\<close>.\<close>

definition greens :: "char \<Rightarrow> string \<Rightarrow> string \<Rightarrow> nat" where
  "greens l g t = length (filter (\<lambda>(a, b). a = b \<and> a = l) (zip g t))"

subsection \<open>Typing relay\<close>

text \<open>
  Modelled from the spec: the room of section 3, whose code is in the absent server, as far
  as the typing relay reads it: the players (at most two, in join order), the sessions
  attached to the room (the broadcast audience), and the game content.
\<close>

record room =
  players :: "sid list"
  sessions :: "sid list"
  target :: string
  guesses :: "(sid \<times> (string \<times> mark list) list) list"
  finished_game :: bool
  winner :: "sid option"

text \<open>
  Modelled from the spec: \<open>typingProgress(sessionId, length)\<close> of section 4.2 with the
  audience of section 4.4, whose code is in the absent server. A stateless relay: the
  length goes to the room minus the sender as \<open>typing:update\<close>; a typing update of a session
  that is not a player is ignored. The result is the room and the events delivered, each
  with its addressee.
\<close>

definition typingProgress :: "room \<Rightarrow> sid \<Rightarrow> nat \<Rightarrow> room \<times> (sid \<times> event) list" where
  "typingProgress r sessionId len =
     (if sessionId \<in> set (players r)
      then (r, map (\<lambda>q. (q, TypingUpdate len)) (filter (\<lambda>q. q \<noteq> sessionId) (sessions r)))
      else (r, []))"

text \<open>The relay applied to the typing messages of one session, in order.\<close>

fun relay_typing :: "room \<Rightarrow> sid \<Rightarrow> nat list \<Rightarrow> room \<times> (sid \<times> event) list" where
  "relay_typing r sessionId [] = (r, [])"
| "relay_typing r sessionId (n # ns) =
     (case typingProgress r sessionId n of (r1, out1) \<Rightarrow>
        (case relay_typing r1 sessionId ns of (r2, out2) \<Rightarrow> (r2, out1 @ out2)))"

text \<open>The client of session \<open>q\<close> after the events addressed to it have arrived.\<close>

fun deliver :: "(sid \<times> event) list \<Rightarrow> sid \<Rightarrow> client \<Rightarrow> client" where
  "deliver [] q c = c"
| "deliver ((a, ev) # ms) q c = deliver ms q (if a = q then fst (step c ev) else c)"

section \<open>Sample runs\<close>

definition sid_me :: sid where
  "sid_me = Sid (CHR ''m'') ''e7Qx''"

definition sid_them :: sid where
  "sid_them = Sid (CHR ''t'') ''h3Zk''"

definition sid_watcher :: sid where
  "sid_watcher = Sid (CHR ''w'') ''a9Lp''"

text \<open>A player who has typed a word: mounted on the bare URL, connected, told it plays.\<close>

definition sample_player :: client where
  "sample_player =
     fst (run (fst (mount (init [])))
            [Connect sid_me, RoomHello True, ChangeInput ''Cr4ne!sx''])"

text \<open>A spectator in the same state of typing.\<close>

definition sample_spectator :: client where
  "sample_spectator =
     fst (run (fst (mount (init [])))
            [Connect sid_watcher, RoomHello False, ChangeInput ''Cr4ne!sx''])"

definition sample_result :: guess_result where
  "sample_result =
     \<lparr>p_sid = sid_them, p_row = 2, p_guess = ''crane'',
      p_feedback = [''g'', ''b'', ''y'', ''b'', ''b''], p_winnerSid = None\<rparr>"

definition sample_room :: room where
  "sample_room =
     \<lparr>players = [sid_me, sid_them], sessions = [sid_me, sid_them, sid_watcher],
      target = ''allot'', guesses = [], finished_game = False, winner = None\<rparr>"

section \<open>Properties of the client\<close>

lemma char_of_iff: "char_of (n::nat) = c \<longleftrightarrow> n mod 256 = of_char c"
  by (simp add: char_of_eq_iff take_bit_eq_mod)

lemmas handler_defs =
  on_room_hello_def on_room_roster_def on_opponent_joined_def on_typing_update_def
  on_guess_result_def on_guess_rejected_def on_room_finished_def on_room_reset_def
  on_status_timeout_def changeRoomId_def onChange_def submitGuess_def handleReset_def

lemmas run_defs =
  handler_defs step_def handle_def mount_def init_def typing_effect_def socket_replaced_def
  or_default_def search_get_def empty_board_def sanitize_def toLowerCase_def toUpperCase_def
  lower_char_def upper_char_def is_letter_def is_upper_def is_lower_def code_def truthy_sid_def
  replace_row_def WORD_LEN_def MAX_GUESSES_def Let_def char_of_iff

subsection \<open>Boards\<close>

lemma length_replace_row: "length (replace_row prev row e) = length prev"
  by (simp add: replace_row_def)

lemma nth_replace_row:
  "i < length prev \<Longrightarrow> replace_row prev row e ! i = (if int i = row then e else prev ! i)"
  by (simp add: replace_row_def nth_enumerate_eq)

lemma replace_row_list_update:
  "replace_row prev row e = (if 0 \<le> row then prev[nat row := e] else prev)"
  by (rule nth_equalityI) (auto simp: length_replace_row nth_replace_row nth_list_update)

lemma empty_board_replicate: "empty_board = replicate MAX_GUESSES \<lparr>guess = [], fb = []\<rparr>"
  by (simp add: empty_board_def map_replicate_const)

subsection \<open>Invariants of the mounted client\<close>

lemma step_fst: "fst (step st ev) = fst (handle st ev)"
  by (simp add: step_def split: prod.splits)

text \<open>On a client with a socket, the socket events run their handlers.\<close>

lemma step_socket_event:
  "socket st = Some s \<Longrightarrow>
     fst (step st (GuessResult p)) = on_guess_result s p st \<and>
     fst (step st (RoomFinished f)) = on_room_finished f st \<and>
     fst (step st RoomReset) = on_room_reset st \<and>
     fst (step st (TypingUpdate n)) = on_typing_update n st"
  by (simp add: step_fst handle_def)

lemma handle_socket: "socket st \<noteq> None \<Longrightarrow> socket (fst (handle st ev)) \<noteq> None"
  by (cases ev) (auto simp: handle_def handler_defs Let_def)

lemma reachable_socket: "reachable st \<Longrightarrow> socket st \<noteq> None"
  by (induction rule: reachable.induct) (simp_all add: mount_def Let_def step_fst handle_socket)

lemma run_fst_Cons: "fst (run st (ev # evs)) = fst (run (fst (step st ev)) evs)"
  by (simp split: prod.splits)

lemma reachable_run: "reachable st \<Longrightarrow> reachable (fst (run st evs))"
proof (induction evs arbitrary: st)
  case Nil
  then show ?case by simp
next
  case (Cons ev evs)
  have "reachable (fst (step st ev))" using Cons.prems by (rule reachable.stepped)
  then have "reachable (fst (run (fst (step st ev)) evs))" by (rule Cons.IH)
  then show ?case by (simp only: run_fst_Cons)
qed

lemma handle_filter_typing: "filter is_typing (snd (handle st ev)) = []"
  by (cases ev)
     (auto simp: handle_def changeRoomId_def submitGuess_def handleReset_def split: option.splits)

lemma step_typing:
  assumes "socket st \<noteq> None" and "input (fst (step st ev)) \<noteq> input st"
  shows "filter is_typing (snd (step st ev)) = [Typing (length (input (fst (step st ev))))]"
proof -
  obtain st' outs where h: "handle st ev = (st', outs)" by (cases "handle st ev")
  have s': "socket st' \<noteq> None" using handle_socket [OF assms(1), of ev] h by simp
  have f: "filter is_typing outs = []" using handle_filter_typing [of st ev] h by simp
  have c: "input st' \<noteq> input st" using assms(2) h by (simp add: step_def)
  show ?thesis using h s' f c by (auto simp: step_def typing_effect_def)
qed

lemma lower_char_letter: "is_letter c \<Longrightarrow> is_lower (lower_char c)"
  by (auto simp: is_letter_def lower_char_def is_lower_def is_upper_def code_def)

lemma sanitize_lower: "c \<in> set (sanitize v) \<Longrightarrow> is_lower c"
  by (auto simp: sanitize_def toLowerCase_def lower_char_letter dest!: in_set_takeD)

lemma sanitize_length: "length (sanitize v) \<le> WORD_LEN"
  by (simp add: sanitize_def toLowerCase_def)

lemma handle_input_ok: "input_ok st \<Longrightarrow> input_ok (fst (handle st ev))"
  by (cases ev)
     (auto simp: input_ok_def handle_def handler_defs Let_def sanitize_length list_all_iff
        sanitize_lower split: option.splits)

lemma reachable_input_ok: "reachable st \<Longrightarrow> input_ok st"
  by (induction rule: reachable.induct)
     (simp_all add: step_fst handle_input_ok, simp add: input_ok_def mount_def init_def Let_def)

lemma step_guess:
  "Guess w \<in> set (snd (step st ev)) \<longleftrightarrow>
     ev = SubmitGuess \<and> socket st \<noteq> None \<and> isPlayer st \<and> length (input st) = WORD_LEN \<and>
     w = input st"
  by (cases ev)
     (auto simp: step_def handle_def changeRoomId_def submitGuess_def handleReset_def
        typing_effect_def split: option.splits prod.splits if_splits)

lemma reachable_sample_player: "reachable sample_player"
  unfolding sample_player_def by (intro reachable_run reachable.mounted)

lemma reachable_sample_spectator: "reachable sample_spectator"
  unfolding sample_spectator_def by (intro reachable_run reachable.mounted)

lemma sample_player_eval:
  "sample_player =
     \<lparr>roomId = ''lobby'', socket = Some \<lparr>sock_id = Some sid_me\<rparr>, isPlayer = True,
      isPlayerRef = True, board = empty_board, otherBoard = empty_board, input = ''crnes'',
      otherTyping = 0, status = [], opponentJoined = False, spectators = 0\<rparr>"
  by (simp add: sample_player_def step_def handle_def mount_def init_def typing_effect_def
      socket_replaced_def or_default_def search_get_def handler_defs sanitize_def
      toLowerCase_def lower_char_def is_letter_def is_upper_def is_lower_def code_def
      WORD_LEN_def Let_def char_of_iff)

lemma sample_spectator_eval:
  "sample_spectator =
     \<lparr>roomId = ''lobby'', socket = Some \<lparr>sock_id = Some sid_watcher\<rparr>, isPlayer = False,
      isPlayerRef = False, board = empty_board, otherBoard = empty_board, input = ''crnes'',
      otherTyping = 0, status = [], opponentJoined = False, spectators = 0\<rparr>"
  by (simp add: sample_spectator_def step_def handle_def mount_def init_def typing_effect_def
      socket_replaced_def or_default_def search_get_def handler_defs sanitize_def
      toLowerCase_def lower_char_def is_letter_def is_upper_def is_lower_def code_def
      WORD_LEN_def Let_def char_of_iff)

subsection \<open>Claims about single handlers\<close>

text \<open>
  Claim C4. When \<open>guess:result\<close> arrives: if the payload's sid is the client's own socket id,
  the row of the own board at index \<open>payload.row\<close> becomes \<open>{guess, feedback}\<close>, every other
  row of it stays, and the opponent board is unchanged; otherwise the same holds with the
  two boards exchanged. A row index outside the board replaces nothing.
\<close>

theorem guess_result_frame:
  "(Some (p_sid p) = sock_id s \<longrightarrow>
      length (board (on_guess_result s p st)) = length (board st) \<and>
      (\<forall>i < length (board st).
         board (on_guess_result s p st) ! i =
           (if int i = p_row p then \<lparr>guess = p_guess p, fb = p_feedback p\<rparr>
            else board st ! i)) \<and>
      otherBoard (on_guess_result s p st) = otherBoard st) \<and>
   (Some (p_sid p) \<noteq> sock_id s \<longrightarrow>
      length (otherBoard (on_guess_result s p st)) = length (otherBoard st) \<and>
      (\<forall>i < length (otherBoard st).
         otherBoard (on_guess_result s p st) ! i =
           (if int i = p_row p then \<lparr>guess = p_guess p, fb = p_feedback p\<rparr>
            else otherBoard st ! i)) \<and>
      board (on_guess_result s p st) = board st)"
  by (simp add: on_guess_result_def Let_def length_replace_row nth_replace_row)

theorem guess_result_frame_witness:
  "Some (p_sid sample_result) \<noteq> sock_id \<lparr>sock_id = Some sid_me\<rparr> \<and>
   Some (p_sid (sample_result\<lparr>p_sid := sid_me\<rparr>)) = sock_id \<lparr>sock_id = Some sid_me\<rparr> \<and>
   otherBoard (on_guess_result \<lparr>sock_id = Some sid_me\<rparr> sample_result sample_player) ! 2 =
     \<lparr>guess = ''crane'', fb = [''g'', ''b'', ''y'', ''b'', ''b'']\<rparr> \<and>
   otherBoard (on_guess_result \<lparr>sock_id = Some sid_me\<rparr> sample_result sample_player) ! 3 =
     \<lparr>guess = [], fb = []\<rparr> \<and>
   board (on_guess_result \<lparr>sock_id = Some sid_me\<rparr> sample_result sample_player) =
     board sample_player \<and>
   board (on_guess_result \<lparr>sock_id = Some sid_me\<rparr> (sample_result\<lparr>p_sid := sid_me\<rparr>)
            sample_player) ! 2 =
     \<lparr>guess = ''crane'', fb = [''g'', ''b'', ''y'', ''b'', ''b'']\<rparr> \<and>
   otherBoard (on_guess_result \<lparr>sock_id = Some sid_me\<rparr> (sample_result\<lparr>p_sid := sid_me\<rparr>)
            sample_player) = otherBoard sample_player"
  using guess_result_frame [of sample_result "\<lparr>sock_id = Some sid_me\<rparr>" sample_player]
    guess_result_frame [of "sample_result\<lparr>p_sid := sid_me\<rparr>" "\<lparr>sock_id = Some sid_me\<rparr>"
      sample_player]
  by (simp add: sample_result_def sample_player_eval sid_me_def sid_them_def empty_board_def
      MAX_GUESSES_def)

text \<open>
  Claim C5. When \<open>room:reset\<close> arrives, the own board and the opponent board both become
  \<open>MAX_GUESSES\<close> rows with empty guess and empty feedback, and the status line and the
  input field become empty strings.
\<close>

theorem room_reset_clears:
  "board (on_room_reset st) = replicate MAX_GUESSES \<lparr>guess = [], fb = []\<rparr> \<and>
   otherBoard (on_room_reset st) = replicate MAX_GUESSES \<lparr>guess = [], fb = []\<rparr> \<and>
   length (board (on_room_reset st)) = MAX_GUESSES \<and>
   length (otherBoard (on_room_reset st)) = MAX_GUESSES \<and>
   status (on_room_reset st) = [] \<and>
   input (on_room_reset st) = []"
  by (simp add: on_room_reset_def empty_board_replicate)

theorem room_reset_clears_witness:
  "input sample_player = ''crnes'' \<and>
   input (on_room_reset sample_player) = [] \<and>
   status (on_room_reset (on_opponent_joined sample_player)) = [] \<and>
   length (board (on_room_reset sample_player)) = 6 \<and>
   otherBoard (on_room_reset
      (on_guess_result \<lparr>sock_id = Some sid_me\<rparr> sample_result sample_player)) =
     replicate 6 \<lparr>guess = [], fb = []\<rparr>"
  using room_reset_clears [of sample_player]
    room_reset_clears [of "on_opponent_joined sample_player"]
    room_reset_clears [of "on_guess_result \<lparr>sock_id = Some sid_me\<rparr> sample_result sample_player"]
  by (simp add: sample_player_eval MAX_GUESSES_def)

text \<open>
  Claim C10. The \<open>room:reset\<close> handler is idempotent: applied twice in succession it leaves
  the same board, opponent board, status and input (indeed the same state) as applied once.
\<close>

theorem room_reset_idempotent:
  "on_room_reset (on_room_reset st) = on_room_reset st \<and>
   board (on_room_reset (on_room_reset st)) = board (on_room_reset st) \<and>
   otherBoard (on_room_reset (on_room_reset st)) = otherBoard (on_room_reset st) \<and>
   status (on_room_reset (on_room_reset st)) = status (on_room_reset st) \<and>
   input (on_room_reset (on_room_reset st)) = input (on_room_reset st)"
  by (simp add: on_room_reset_def)

theorem room_reset_idempotent_witness:
  "on_room_reset (on_room_reset sample_player) = on_room_reset sample_player \<and>
   on_room_reset sample_player \<noteq> sample_player"
  using room_reset_idempotent [of sample_player]
  by (simp add: sample_player_eval on_room_reset_def)

text \<open>
  Claim C8. When \<open>room:finished\<close> arrives without a \<open>winnerSid\<close> (a draw), the status line
  becomes the draw notice with the solution of the event in upper case; when a \<open>winnerSid\<close>
  is present, the handler leaves the status (indeed the state) unchanged.
\<close>

theorem room_finished_status:
  "(f_winnerSid p = None \<longrightarrow>
      status (on_room_finished p st) = ''Draw. Solution: '' @ toUpperCase (f_solution p)) \<and>
   (f_winnerSid p = Some w \<longrightarrow>
      status (on_room_finished p st) = status st \<and> on_room_finished p st = st)"
  by (cases w) (simp add: on_room_finished_def truthy_sid_def)

theorem room_finished_status_witness:
  "f_winnerSid \<lparr>f_solution = ''allot'', f_winnerSid = None\<rparr> = None \<and>
   status (on_room_finished \<lparr>f_solution = ''allot'', f_winnerSid = None\<rparr> sample_player) =
     ''Draw. Solution: ALLOT'' \<and>
   f_winnerSid \<lparr>f_solution = ''allot'', f_winnerSid = Some sid_them\<rparr> = Some sid_them \<and>
   status (on_room_finished \<lparr>f_solution = ''allot'', f_winnerSid = Some sid_them\<rparr>
             (on_opponent_joined sample_player)) = status_opponent_joined"
  using room_finished_status [of "\<lparr>f_solution = ''allot'', f_winnerSid = None\<rparr>" sample_player]
    room_finished_status [of "\<lparr>f_solution = ''allot'', f_winnerSid = Some sid_them\<rparr>"
      "on_opponent_joined sample_player" sid_them]
  by (simp add: toUpperCase_def upper_char_def is_lower_def code_def char_of_iff
      on_opponent_joined_def)

subsection \<open>What the opponent section shows\<close>

lemma trim_space: "trim [CHR '' ''] = []"
  by (simp add: trim_def is_space_def code_def)

lemma Row_blank_letters: "c \<in> set (Row '' '' colours) \<Longrightarrow> letter c = []"
  by (auto simp: Row_def Let_def padEnd_def WORD_LEN_def Cell_def trim_space enumerate_eq_zip
      dest!: set_zip_rightD)

text \<open>
  Claim C2. The opponent board that the client renders shows feedback colours only: for a
  \<open>guess:result\<close> event whose sid is not the client's own socket id, two events that differ
  only in the guess letters (same row, same feedback) give the same rendered opponent
  board (indeed the same page), and no cell of that board carries a letter.
\<close>

theorem opponent_letters_hidden:
  assumes "Some (p_sid p) \<noteq> sock_id s"
  shows "render_otherBoard (on_guess_result s (p\<lparr>p_guess := g1\<rparr>) st) =
           render_otherBoard (on_guess_result s (p\<lparr>p_guess := g2\<rparr>) st) \<and>
         render_App (on_guess_result s (p\<lparr>p_guess := g1\<rparr>) st) =
           render_App (on_guess_result s (p\<lparr>p_guess := g2\<rparr>) st) \<and>
         (\<forall>r \<in> set (render_otherBoard (on_guess_result s (p\<lparr>p_guess := g1\<rparr>) st)).
            \<forall>c \<in> set r. letter c = [])"
proof -
  have o: "render_otherBoard (on_guess_result s (p\<lparr>p_guess := g1\<rparr>) st) =
           render_otherBoard (on_guess_result s (p\<lparr>p_guess := g2\<rparr>) st)"
    using assms
    by (simp add: render_otherBoard_def on_guess_result_def Let_def replace_row_def
        enumerate_eq_zip comp_def split_def if_distrib [of fb] cong: if_cong)
  have a: "render_App (on_guess_result s (p\<lparr>p_guess := g1\<rparr>) st) =
           render_App (on_guess_result s (p\<lparr>p_guess := g2\<rparr>) st)"
    using o assms by (simp add: render_App_def render_board_def on_guess_result_def Let_def)
  have l: "\<forall>r \<in> set (render_otherBoard (on_guess_result s (p\<lparr>p_guess := g1\<rparr>) st)).
            \<forall>c \<in> set r. letter c = []"
    by (auto simp: render_otherBoard_def Row_blank_letters)
  from o a l show ?thesis by blast
qed

theorem opponent_letters_hidden_witness:
  "Some (p_sid sample_result) \<noteq> sock_id \<lparr>sock_id = Some sid_me\<rparr> \<and>
   render_otherBoard
     (on_guess_result \<lparr>sock_id = Some sid_me\<rparr> (sample_result\<lparr>p_guess := ''crane''\<rparr>)
        sample_player) =
   render_otherBoard
     (on_guess_result \<lparr>sock_id = Some sid_me\<rparr> (sample_result\<lparr>p_guess := ''slate''\<rparr>)
        sample_player) \<and>
   render_otherBoard
     (on_guess_result \<lparr>sock_id = Some sid_me\<rparr> (sample_result\<lparr>p_guess := ''crane''\<rparr>)
        sample_player) ! 2 =
     [\<lparr>cls = ''bg-green-600'', letter = []\<rparr>, \<lparr>cls = ''bg-slate-700'', letter = []\<rparr>,
      \<lparr>cls = ''bg-yellow-600'', letter = []\<rparr>, \<lparr>cls = ''bg-slate-700'', letter = []\<rparr>,
      \<lparr>cls = ''bg-slate-700'', letter = []\<rparr>] \<and>
   render_board
     (on_guess_result \<lparr>sock_id = Some sid_me\<rparr> (sample_result\<lparr>p_sid := sid_me\<rparr>)
        sample_player) ! 2 =
     [\<lparr>cls = ''bg-green-600'', letter = ''c''\<rparr>, \<lparr>cls = ''bg-slate-700'', letter = ''r''\<rparr>,
      \<lparr>cls = ''bg-yellow-600'', letter = ''a''\<rparr>, \<lparr>cls = ''bg-slate-700'', letter = ''n''\<rparr>,
      \<lparr>cls = ''bg-slate-700'', letter = ''e''\<rparr>]"
proof -
  have h: "Some (p_sid sample_result) \<noteq> sock_id \<lparr>sock_id = Some sid_me\<rparr>"
    by (simp add: sample_result_def sid_me_def sid_them_def)
  have e: "render_otherBoard
     (on_guess_result \<lparr>sock_id = Some sid_me\<rparr> (sample_result\<lparr>p_guess := ''crane''\<rparr>)
        sample_player) =
   render_otherBoard
     (on_guess_result \<lparr>sock_id = Some sid_me\<rparr> (sample_result\<lparr>p_guess := ''slate''\<rparr>)
        sample_player)"
    using opponent_letters_hidden [OF h, where ?g1.0 = "''crane''" and ?g2.0 = "''slate''"
        and st = sample_player]
    by (rule conjunct1)
  have r: "render_otherBoard
     (on_guess_result \<lparr>sock_id = Some sid_me\<rparr> (sample_result\<lparr>p_guess := ''crane''\<rparr>)
        sample_player) ! 2 =
     [\<lparr>cls = ''bg-green-600'', letter = []\<rparr>, \<lparr>cls = ''bg-slate-700'', letter = []\<rparr>,
      \<lparr>cls = ''bg-yellow-600'', letter = []\<rparr>, \<lparr>cls = ''bg-slate-700'', letter = []\<rparr>,
      \<lparr>cls = ''bg-slate-700'', letter = []\<rparr>]"
    by code_simp
  have b: "render_board
     (on_guess_result \<lparr>sock_id = Some sid_me\<rparr> (sample_result\<lparr>p_sid := sid_me\<rparr>)
        sample_player) ! 2 =
     [\<lparr>cls = ''bg-green-600'', letter = ''c''\<rparr>, \<lparr>cls = ''bg-slate-700'', letter = ''r''\<rparr>,
      \<lparr>cls = ''bg-yellow-600'', letter = ''a''\<rparr>, \<lparr>cls = ''bg-slate-700'', letter = ''n''\<rparr>,
      \<lparr>cls = ''bg-slate-700'', letter = ''e''\<rparr>]"
    by code_simp
  show ?thesis by (intro conjI h e r b)
qed

subsection \<open>What the client emits\<close>

text \<open>
  Claim C3. Typing progress carries the length of the input and nothing of its letters:
  whenever an event changes the input field of a mounted client, the client emits exactly
  one typing message, whose payload is the length of the new input; so two runs whose new
  inputs have the same length emit the same typing messages.
\<close>

theorem typing_carries_length_only:
  assumes "reachable st1" and "reachable st2"
    and "input (fst (step st1 e1)) \<noteq> input st1"
    and "input (fst (step st2 e2)) \<noteq> input st2"
    and "length (input (fst (step st1 e1))) = length (input (fst (step st2 e2)))"
  shows "filter is_typing (snd (step st1 e1)) = [Typing (length (input (fst (step st1 e1))))] \<and>
         filter is_typing (snd (step st2 e2)) = filter is_typing (snd (step st1 e1))"
  using assms by (simp add: step_typing reachable_socket)

theorem typing_carries_length_only_witness:
  "input (fst (step sample_player (ChangeInput ''ab''))) = ''ab'' \<and>
   input (fst (step sample_player (ChangeInput ''x9Y''))) = ''xy'' \<and>
   input sample_player = ''crnes'' \<and>
   filter is_typing (snd (step sample_player (ChangeInput ''ab''))) = [Typing 2] \<and>
   filter is_typing (snd (step sample_player (ChangeInput ''x9Y''))) = [Typing 2]"
proof -
  have i1: "input (fst (step sample_player (ChangeInput ''ab''))) = ''ab''"
    by (simp add: sample_player_eval run_defs)
  have i2: "input (fst (step sample_player (ChangeInput ''x9Y''))) = ''xy''"
    by (simp add: sample_player_eval run_defs)
  have i0: "input sample_player = ''crnes''"
    by (simp add: sample_player_eval)
  from typing_carries_length_only [OF reachable_sample_player reachable_sample_player,
      of "ChangeInput ''ab''" "ChangeInput ''x9Y''"] i0 i1 i2
  show ?thesis by simp
qed

text \<open>
  Claim C6. Every guess message a mounted client emits is well-formed: it is emitted only
  while the client is a player, and its word has exactly \<open>WORD_LEN\<close> characters, all
  lower-case ASCII letters; a client that is not a player, or whose input does not have
  \<open>WORD_LEN\<close> characters, emits no guess message, whatever the event.
\<close>

theorem guess_wellformed:
  assumes "reachable st"
  shows "(Guess w \<in> set (snd (step st ev)) \<longrightarrow>
            isPlayer st \<and> length w = WORD_LEN \<and> (\<forall>c \<in> set w. is_lower c)) \<and>
         (\<not> isPlayer st \<or> length (input st) \<noteq> WORD_LEN \<longrightarrow>
            Guess w \<notin> set (snd (step st ev)))"
  using reachable_input_ok [OF assms] by (auto simp: step_guess input_ok_def list_all_iff)

theorem guess_wellformed_witness:
  "snd (step sample_player SubmitGuess) = [Guess ''crnes'', Typing 0] \<and>
   isPlayer sample_player \<and> length ''crnes'' = WORD_LEN \<and> list_all is_lower ''crnes'' \<and>
   \<not> isPlayer sample_spectator \<and> snd (step sample_spectator SubmitGuess) = []"
proof -
  have e: "snd (step sample_player SubmitGuess) = [Guess ''crnes'', Typing 0]"
    by (simp add: sample_player_eval run_defs)
  have s: "snd (step sample_spectator SubmitGuess) = []"
    by (simp add: sample_spectator_eval run_defs)
  have n: "\<not> isPlayer sample_spectator"
    by (simp add: sample_spectator_eval)
  from guess_wellformed [OF reachable_sample_player, of "''crnes''" SubmitGuess] e s n
  show ?thesis by (simp add: list_all_iff)
qed

text \<open>
  Claim C9, as amended. If the query string of the page has no \<open>room\<close> parameter, or the
  first one is empty, the client starts with room id \<open>lobby\<close> and emits \<open>room_join\<close> for
  \<open>lobby\<close> when it connects; otherwise it joins the room that the first \<open>room\<close> parameter
  names, verbatim.
\<close>

theorem room_join_default:
  "(search_get params ''room'' = None \<or> search_get params ''room'' = Some [] \<longrightarrow>
      roomId (init params) = ''lobby'' \<and>
      snd (step (fst (mount (init params))) (Connect i)) = [RoomJoin ''lobby'']) \<and>
   (search_get params ''room'' = Some v \<and> v \<noteq> [] \<longrightarrow>
      roomId (init params) = v \<and>
      snd (step (fst (mount (init params))) (Connect i)) = [RoomJoin v])"
  by (auto simp: init_def or_default_def step_def handle_def mount_def Let_def
      socket_replaced_def)

theorem room_join_default_witness:
  "search_get [] ''room'' = None \<and>
   snd (step (fst (mount (init []))) (Connect sid_me)) = [RoomJoin ''lobby''] \<and>
   search_get [(''room'', ''den''), (''room'', ''attic'')] ''room'' = Some ''den'' \<and>
   snd (step (fst (mount (init [(''room'', ''den''), (''room'', ''attic'')]))) (Connect sid_me)) =
     [RoomJoin ''den'']"
  using room_join_default [where params = "[]" and i = sid_me]
    room_join_default [where params = "[(''room'', ''den''), (''room'', ''attic'')]"
      and v = "''den''" and i = sid_me]
  by (simp add: search_get_def)

text \<open>
  The claim as first stated fails on the page \<open>?room=\<close>: the parameter is there, its value is
  the empty string, and the client joins \<open>lobby\<close>, not the room of that name.
\<close>

theorem room_join_default_counterexample:
  "search_get [(''room'', [])] ''room'' = Some [] \<and>
   roomId (init [(''room'', [])]) = ''lobby'' \<and>
   snd (step (fst (mount (init [(''room'', [])]))) (Connect (Sid (CHR ''k'') ''3''))) =
     [RoomJoin ''lobby''] \<and>
   ''lobby'' \<noteq> []"
  by (simp add: search_get_def init_def or_default_def step_def handle_def mount_def Let_def
      socket_replaced_def)

section \<open>Properties of the specified server side\<close>

subsection \<open>Feedback\<close>

lemma pass1_flags:
  "length g = length t \<Longrightarrow> fst (pass1 g t r) = map (\<lambda>(a, b). a = b) (zip g t)"
  by (induction g t r rule: pass1.induct) (auto split: prod.splits)

lemma pass1_snd_Cons:
  "snd (pass1 (c # cs) (d # ds) r) = snd (pass1 cs ds (if c = d then r(c := r c - 1) else r))"
  by (simp split: prod.splits)

text \<open>After pass 1 the table has lost one occurrence per green position.\<close>

lemma pass1_table: "snd (pass1 g t r) l = r l - greens l g t"
proof (induction g arbitrary: t r)
  case Nil
  then show ?case by (simp add: greens_def)
next
  case (Cons c cs)
  show ?case
  proof (cases t)
    case Nil
    then show ?thesis by (simp add: greens_def)
  next
    case (Cons d ds)
    have "snd (pass1 (c # cs) t r) l = (if c = d then r(c := r c - 1) else r) l - greens l cs ds"
      unfolding Cons pass1_snd_Cons by (rule Cons.IH)
    also have "\<dots> = r l - greens l (c # cs) t"
      using Cons by (simp add: greens_def)
    finally show ?thesis .
  qed
qed

lemma length_pass2: "length bs = length g \<Longrightarrow> length (pass2 g bs r) = length g"
  by (induction g bs r rule: pass2.induct) auto

text \<open>Pass 2 credits the green positions, and of the others as many as the table allows.\<close>

lemma pass2_credited:
  "length bs = length g \<Longrightarrow>
   credited l g (pass2 g bs r) =
     length (filter (\<lambda>(c, b). c = l \<and> b) (zip g bs)) +
     min (length (filter (\<lambda>(c, b). c = l \<and> \<not> b) (zip g bs))) (r l)"
  by (induction g bs r rule: pass2.induct) (auto simp: credited_def)

lemma pass2_green:
  "length bs = length g \<Longrightarrow> i < length g \<Longrightarrow> (pass2 g bs r ! i = GREEN) = bs ! i"
proof (induction g arbitrary: bs r i)
  case Nil
  then show ?case by simp
next
  case (Cons c cs)
  then obtain b bs' where bs: "bs = b # bs'" by (cases bs) auto
  show ?case
  proof (cases i)
    case 0
    then show ?thesis by (simp add: bs)
  next
    case (Suc j)
    then show ?thesis using Cons by (simp add: bs)
  qed
qed

lemma greens_le_target: "greens l g t \<le> count_list t l"
  unfolding greens_def
proof (induction g t rule: list_induct2')
  case (4 x xs y ys)
  then show ?case by auto
qed auto

lemma split_guess:
  "length g = length t \<Longrightarrow>
   length (filter (\<lambda>(c, b). c = l \<and> b) (zip g (map (\<lambda>(a, b). a = b) (zip g t)))) =
     greens l g t \<and>
   length (filter (\<lambda>(c, b). c = l \<and> \<not> b) (zip g (map (\<lambda>(a, b). a = b) (zip g t)))) =
     count_list g l - greens l g t \<and>
   greens l g t \<le> count_list g l"
  unfolding greens_def by (induction g t rule: list_induct2) auto

lemma feedback_credited:
  assumes "length g = length t"
  shows "credited l g (feedback g t) = min (count_list g l) (count_list t l)"
proof -
  obtain green r where p: "pass1 g t (count_list t) = (green, r)"
    by (cases "pass1 g t (count_list t)")
  have fl: "green = map (\<lambda>(a, b). a = b) (zip g t)"
    using pass1_flags [OF assms, of "count_list t"] p by simp
  have tb: "r l = count_list t l - greens l g t"
    using pass1_table [of g t "count_list t" l] p by simp
  have len: "length green = length g" using fl assms by simp
  have "credited l g (feedback g t) = credited l g (pass2 g green r)"
    by (simp add: feedback_def p)
  also have "\<dots> = greens l g t +
      min (count_list g l - greens l g t) (count_list t l - greens l g t)"
    using pass2_credited [OF len, of l r] split_guess [OF assms, of l] fl tb by simp
  also have "\<dots> = min (count_list g l) (count_list t l)"
    using greens_le_target [of l g t] split_guess [OF assms, of l] by arith
  finally show ?thesis .
qed

lemma feedback_green:
  assumes "length g = length t" and "i < length g"
  shows "(feedback g t ! i = GREEN) = (g ! i = t ! i)"
proof -
  obtain green r where p: "pass1 g t (count_list t) = (green, r)"
    by (cases "pass1 g t (count_list t)")
  have fl: "green = map (\<lambda>(a, b). a = b) (zip g t)"
    using pass1_flags [OF assms(1), of "count_list t"] p by simp
  have len: "length green = length g" using fl assms by simp
  show ?thesis using pass2_green [OF len assms(2), of r] fl assms by (simp add: feedback_def p)
qed

lemma length_feedback:
  assumes "length g = length t"
  shows "length (feedback g t) = length g"
proof -
  obtain green r where p: "pass1 g t (count_list t) = (green, r)"
    by (cases "pass1 g t (count_list t)")
  have "green = map (\<lambda>(a, b). a = b) (zip g t)"
    using pass1_flags [OF assms, of "count_list t"] p by simp
  then have "length green = length g" using assms by simp
  then show ?thesis by (simp add: feedback_def p length_pass2)
qed

lemma feedback_self: "feedback t t = replicate (length t) GREEN"
  by (rule nth_equalityI) (simp_all add: length_feedback feedback_green)

text \<open>
  Claim C1. For a target \<open>T\<close> and a guess \<open>G\<close> of length \<open>WORD_LEN\<close>: the feedback of \<open>T\<close>
  against itself is all green; for every letter \<open>L\<close>, the green and yellow marks on the
  occurrences of \<open>L\<close> in \<open>G\<close> number \<open>min (count of L in G) (count of L in T)\<close>; and green
  has priority: a position is green exactly when guess and target agree there, so the
  exact matches are never spent on yellow. Nothing is required of the characters: the
  statement holds for letters and for any others.
\<close>

theorem feedback_marks:
  assumes "length G = WORD_LEN" and "length T = WORD_LEN"
  shows "feedback T T = replicate WORD_LEN GREEN \<and>
         length (feedback G T) = WORD_LEN \<and>
         credited L G (feedback G T) = min (count_list G L) (count_list T L) \<and>
         (\<forall>i < WORD_LEN. (feedback G T ! i = GREEN) = (G ! i = T ! i))"
proof -
  have eq: "length G = length T" using assms by simp
  have s: "feedback T T = replicate WORD_LEN GREEN"
    using feedback_self [of T] assms(2) by simp
  have n: "length (feedback G T) = WORD_LEN"
    using length_feedback [OF eq] assms(1) by simp
  have c: "credited L G (feedback G T) = min (count_list G L) (count_list T L)"
    by (rule feedback_credited [OF eq])
  have g: "\<forall>i < WORD_LEN. (feedback G T ! i = GREEN) = (G ! i = T ! i)"
    using feedback_green [OF eq] assms(1) by simp
  from s n c g show ?thesis by blast
qed

theorem feedback_marks_witness:
  "length ''llama'' = WORD_LEN \<and> length ''allot'' = WORD_LEN \<and>
   feedback ''allot'' ''allot'' = [GREEN, GREEN, GREEN, GREEN, GREEN] \<and>
   feedback ''llama'' ''allot'' = [YELLOW, GREEN, YELLOW, GRAY, GRAY] \<and>
   credited (CHR ''l'') ''llama'' (feedback ''llama'' ''allot'') = 2 \<and>
   credited (CHR ''a'') ''llama'' (feedback ''llama'' ''allot'') = 1 \<and>
   count_list ''llama'' (CHR ''a'') = 2 \<and> count_list ''allot'' (CHR ''a'') = 1"
proof -
  have lg: "length ''llama'' = WORD_LEN" and lt: "length ''allot'' = WORD_LEN"
    by (simp_all add: WORD_LEN_def)
  have f: "feedback ''llama'' ''allot'' = [YELLOW, GREEN, YELLOW, GRAY, GRAY]"
    by code_simp
  have s: "feedback ''allot'' ''allot'' = [GREEN, GREEN, GREEN, GREEN, GREEN]"
    using feedback_marks [OF lg lt, of "CHR ''l''"] by (simp add: WORD_LEN_def numeral_eq_Suc)
  have cl: "credited (CHR ''l'') ''llama'' (feedback ''llama'' ''allot'') = 2"
    using feedback_marks [OF lg lt, of "CHR ''l''"] by simp
  have ca: "credited (CHR ''a'') ''llama'' (feedback ''llama'' ''allot'') = 1"
    using feedback_marks [OF lg lt, of "CHR ''a''"] by simp
  have na: "count_list ''llama'' (CHR ''a'') = 2" and nt: "count_list ''allot'' (CHR ''a'') = 1"
    by simp_all
  show ?thesis by (intro conjI lg lt s f cl ca na nt)
qed

subsection \<open>Typing relay\<close>

lemma relay_typing_spectator:
  "sessionId \<notin> set (players r) \<Longrightarrow> relay_typing r sessionId lens = (r, [])"
  by (induction lens) (simp_all add: typingProgress_def)

text \<open>
  Claim C7. A spectator never affects typing indicators: for a session that is not one of
  the room's players and every sequence of typing messages it sends (in particular those
  its client emits over any run of events), the relay delivers nothing to anyone and
  leaves the room as it was, so the client state of every other participant, its typing
  indicator included, stays what it was.
\<close>

theorem spectator_typing_ignored:
  assumes "sessionId \<notin> set (players r)"
  shows "relay_typing r sessionId lens = (r, []) \<and>
         relay_typing r sessionId (typing_lengths (snd (run st evs))) = (r, []) \<and>
         deliver (snd (relay_typing r sessionId lens)) q c = c \<and>
         otherTyping (deliver (snd (relay_typing r sessionId lens)) q c) = otherTyping c"
  using assms by (simp add: relay_typing_spectator)

theorem spectator_typing_ignored_witness:
  "sid_watcher \<notin> set (players sample_room) \<and>
   typing_lengths (snd (run sample_spectator [ChangeInput ''ab'', ChangeInput ''abc''])) = [2, 3] \<and>
   relay_typing sample_room sid_watcher [2, 3] = (sample_room, []) \<and>
   snd (relay_typing sample_room sid_them [2, 3]) =
     [(sid_me, TypingUpdate 2), (sid_watcher, TypingUpdate 2),
      (sid_me, TypingUpdate 3), (sid_watcher, TypingUpdate 3)] \<and>
   otherTyping (deliver (snd (relay_typing sample_room sid_watcher [2, 3])) sid_me
                  sample_player) = 0 \<and>
   otherTyping (deliver (snd (relay_typing sample_room sid_them [2, 3])) sid_me
                  sample_player) = 3"
proof -
  have h: "sid_watcher \<notin> set (players sample_room)"
    by (simp add: sample_room_def sid_watcher_def sid_me_def sid_them_def)
  have t: "typing_lengths (snd (run sample_spectator [ChangeInput ''ab'', ChangeInput ''abc''])) =
      [2, 3]"
    by code_simp
  have w: "relay_typing sample_room sid_watcher [2, 3] = (sample_room, [])"
    using spectator_typing_ignored [OF h, of "[2, 3]"] by (rule conjunct1)
  have m: "snd (relay_typing sample_room sid_them [2, 3]) =
     [(sid_me, TypingUpdate 2), (sid_watcher, TypingUpdate 2),
      (sid_me, TypingUpdate 3), (sid_watcher, TypingUpdate 3)]"
    by code_simp
  have d0: "otherTyping (deliver (snd (relay_typing sample_room sid_watcher [2, 3])) sid_me
                  sample_player) = 0"
    using spectator_typing_ignored [OF h, of "[2, 3]" _ _ sid_me sample_player]
    by (simp add: sample_player_eval)
  have d1: "otherTyping (deliver (snd (relay_typing sample_room sid_them [2, 3])) sid_me
                  sample_player) = 3"
    by code_simp
  show ?thesis by (intro conjI h t w m d0 d1)
qed

end
